theory Spec2Isabelle
  imports Main
begin

section \<open>The search page of docusaurus-theme-search-typesense\<close>

text \<open>
  The development embeds the logic of the \<^verbatim>\<open>SearchPage\<close> component: the reducer of the
  search result state, the handler of the helper's \<^verbatim>\<open>result\<close> event, the construction
  of a search request (\<^verbatim>\<open>makeSearch\<close>), the effect that delays a search by 300 ms, and
  the initialisation of the per-plugin version selection.

  A JavaScript number is a double. The numbers of the page count pages and hits, so they
  are the doubles that are integers, and the model holds them as \<^typ>\<open>int\<close>. Comparison of
  doubles is exact; addition rounds its exact sum to the nearest double, and the model
  does the same (\<open>jsAdd\<close> below), so sums beyond \<open>2\<^sup>5\<^sup>3\<close> are not exact here either.
  A field of type \<^verbatim>\<open>T | null\<close> is a \<^typ>\<open>'a option\<close>, with \<^term>\<open>None\<close> for
  \<^verbatim>\<open>null\<close>. A JavaScript string is a \<^typ>\<open>string\<close>.
\<close>

subsection \<open>Data model\<close>

text \<open>The element type of \<^verbatim>\<open>ResultDispatcherState.items\<close>.\<close>

record resultItem =
  title :: string
  url :: string
  summary :: string
  breadcrumbs :: "string list"

text \<open>\<^verbatim>\<open>type ResultDispatcherState\<close>.\<close>

record resultDispatcherState =
  items :: "resultItem list"
  query :: "string option"
  totalResults :: "int option"
  totalPages :: "int option"
  lastPage :: "int option"
  hasMore :: "bool option"
  loading :: "bool option"

text \<open>\<^verbatim>\<open>type ResultDispatcher\<close>: the tag \<^verbatim>\<open>type\<close> is the constructor.\<close>

datatype resultDispatcher =
  Reset
| Loading
| Update resultDispatcherState
| Advance

subsection \<open>The reducer\<close>

definition initialSearchResultState :: resultDispatcherState where
  "initialSearchResultState =
     \<lparr>items = [], query = None, totalResults = None, totalPages = None,
      lastPage = None, hasMore = None, loading = None\<rparr>"

text \<open>
  The operators \<^verbatim>\<open>>\<close> and \<^verbatim>\<open>+\<close> of JavaScript convert a \<^verbatim>\<open>null\<close> operand to the
  number 0; the non-null assertion \<^verbatim>\<open>!\<close> of TypeScript is erased by the compiler and
  checks nothing when the code runs.
\<close>

definition toNumber :: "int option \<Rightarrow> int" where
  "toNumber v = (case v of None \<Rightarrow> 0 | Some n \<Rightarrow> n)"

text \<open>The number of binary digits of a natural number.\<close>

fun bitLength :: "nat \<Rightarrow> nat" where
  "bitLength n = (if n = 0 then 0 else Suc (bitLength (n div 2)))"

declare bitLength.simps [simp del]

text \<open>
  The double nearest to an integer. A double has a significand of 53 binary digits: an
  integer with more digits keeps its leading 53, the unit \<open>u\<close> being the weight of the
  last of them, and the rest \<open>r\<close> is rounded to the nearest multiple of \<open>u\<close>, a tie
  going to the even significand. An integer of at most 53 digits is unchanged. The
  integers of the page are far below \<open>2\<^sup>1\<^sup>0\<^sup>2\<^sup>4\<close>, where a double overflows.
\<close>

definition roundToDouble :: "int \<Rightarrow> int" where
  "roundToDouble n =
     (let a = nat \<bar>n\<bar>;
          u = 2 ^ (bitLength a - 53);
          q = a div u;
          r = a mod u;
          q' = (if 2 * r < u then q
                else if u < 2 * r then q + 1
                else if even q then q else q + 1)
      in sgn n * int (q' * u))"

text \<open>The operator \<^verbatim>\<open>+\<close> of JavaScript on two numbers that are integers.\<close>

definition jsAdd :: "int \<Rightarrow> int \<Rightarrow> int" where
  "jsAdd a b = roundToDouble (a + b)"

text \<open>
  The function passed to \<^verbatim>\<open>useReducer\<close>. It closes over \<^verbatim>\<open>searchQuery\<close>, the active
  query of the page, which is the first argument here. The \<^verbatim>\<open>default\<close> branch of the
  \<^verbatim>\<open>switch\<close> has no constructor of \<^typ>\<open>resultDispatcher\<close>. In the \<^verbatim>\<open>update\<close> case
  \<^verbatim>\<open>!==\<close> compares a string with \<^verbatim>\<open>string | null\<close>, and \<^verbatim>\<open>=== 0\<close> is false of
  \<^verbatim>\<open>null\<close>.
\<close>

fun reducer :: "string \<Rightarrow> resultDispatcherState \<Rightarrow> resultDispatcher \<Rightarrow> resultDispatcherState" where
  "reducer searchQuery prevState Reset = initialSearchResultState"
| "reducer searchQuery prevState Loading = prevState\<lparr>loading := Some True\<rparr>"
| "reducer searchQuery prevState (Update v) =
     (if Some searchQuery \<noteq> query v then prevState
      else v\<lparr>items := (if lastPage v = Some 0 then items v
                        else items prevState @ items v)\<rparr>)"
| "reducer searchQuery prevState Advance =
     (let hasMore' = (toNumber (totalPages prevState) > jsAdd (toNumber (lastPage prevState)) 1)
      in prevState\<lparr>lastPage := (if hasMore' then Some (jsAdd (toNumber (lastPage prevState)) 1)
                                else lastPage prevState),
                    hasMore := Some hasMore'\<rparr>)"

text \<open>A sequence of dispatches, applied in order.\<close>

definition dispatchAll ::
  "string \<Rightarrow> resultDispatcherState \<Rightarrow> resultDispatcher list \<Rightarrow> resultDispatcherState" where
  "dispatchAll searchQuery s evs = foldl (reducer searchQuery) s evs"

subsection \<open>The handler of the helper's result event\<close>

text \<open>
  The field \<^verbatim>\<open>hits\<close> of a result is tested with \<^verbatim>\<open>Array.isArray\<close>, so the model
  keeps the case that it is not an array. The type \<^typ>\<open>'h\<close> is the type of one hit.
\<close>

datatype 'h hitsField = HitsArray "'h list" | NotAnArray

fun isArray :: "'h hitsField \<Rightarrow> bool" where
  "isArray (HitsArray hs) = True"
| "isArray NotAnArray = False"

fun elements :: "'h hitsField \<Rightarrow> 'h list" where
  "elements (HitsArray hs) = hs"
| "elements NotAnArray = []"

text \<open>The fields \<^verbatim>\<open>{query, hits, page, nbHits, nbPages}\<close> the handler reads.\<close>

record 'h searchResults =
  resultsQuery :: string
  hits :: "'h hitsField"
  page :: int
  nbHits :: int
  nbPages :: int

datatype error = TypeError

text \<open>
  \<^verbatim>\<open>hits.map(callback)\<close>. The callback builds one item from one hit with the \<^verbatim>\<open>URL\<close>
  class and \<^verbatim>\<open>isRegexpStringMatch\<close>, which are not part of this repository, so it is
  the parameter \<open>toItem\<close>; \<^verbatim>\<open>new URL(url)\<close> throws a TypeError on a malformed url, and
  then the handler ends without a dispatch.
\<close>

fun mapHits :: "('h \<Rightarrow> error + resultItem) \<Rightarrow> 'h list \<Rightarrow> error + resultItem list" where
  "mapHits toItem [] = Inr []"
| "mapHits toItem (h # hs) =
     (case toItem h of
        Inl e \<Rightarrow> Inl e
      | Inr i \<Rightarrow> (case mapHits toItem hs of Inl e \<Rightarrow> Inl e | Inr is \<Rightarrow> Inr (i # is)))"

text \<open>
  The callback of \<^verbatim>\<open>algoliaHelper.on('result', ...)\<close>. Its value is the list of the
  events it dispatches, in order, or the error it throws.
\<close>

definition onResult ::
  "('h \<Rightarrow> error + resultItem) \<Rightarrow> 'h searchResults \<Rightarrow> error + resultDispatcher list" where
  "onResult toItem r =
     (if resultsQuery r = [] \<or> \<not> isArray (hits r) then Inr [Reset]
      else (case mapHits toItem (elements (hits r)) of
              Inl e \<Rightarrow> Inl e
            | Inr its \<Rightarrow>
                Inr [Update \<lparr>items = its, query = Some (resultsQuery r),
                             totalResults = Some (nbHits r), totalPages = Some (nbPages r),
                             lastPage = Some (page r),
                             hasMore = Some (nbPages r > jsAdd (page r) 1),
                             loading = Some False\<rparr>]))"

subsection \<open>The version selection\<close>

text \<open>
  A JavaScript object with string keys is an association list in the order of
  \<^verbatim>\<open>Object.entries\<close>. \<^verbatim>\<open>{...s, [key]: value}\<close> keeps the place of a key that \<open>s\<close>
  has and puts a new key last. JavaScript lists the keys that are array indices, such as
  \<^verbatim>\<open>"7"\<close>, before all others and in ascending order, so the last place is the right one
  when the new key is not an array index or follows every key of \<open>s\<close> in the order of
  \<^verbatim>\<open>Object.entries\<close>. The only use below adds the keys of \<^verbatim>\<open>Object.entries(allDocsData)\<close>
  in their order to the empty object, where this holds.
\<close>

fun objAssign :: "(string \<times> 'v) list \<Rightarrow> string \<Rightarrow> 'v \<Rightarrow> (string \<times> 'v) list" where
  "objAssign [] k v = [(k, v)]"
| "objAssign ((k', v') # s) k v =
     (if k' = k then (k, v) # s else (k', v') # objAssign s k v)"

record version =
  name :: string
  label :: string

text \<open>The data of one docs plugin instance; only \<^verbatim>\<open>versions\<close> is read.\<close>

record docsData =
  versions :: "version list"

text \<open>
  The \<^verbatim>\<open>reduce\<close> that initialises \<^verbatim>\<open>searchVersions\<close> in
  \<^verbatim>\<open>useDocsSearchVersionsHelpers\<close>, over \<^verbatim>\<open>Object.entries(allDocsData)\<close> with the
  accumulator \<open>acc\<close>. On an empty array \<^verbatim>\<open>versions[0]\<close> is \<^verbatim>\<open>undefined\<close>, and reading
  \<^verbatim>\<open>.name\<close> of it throws a TypeError.
\<close>

fun searchVersionsReduce ::
  "(string \<times> docsData) list \<Rightarrow> (string \<times> string) list \<Rightarrow> error + (string \<times> string) list" where
  "searchVersionsReduce [] acc = Inr acc"
| "searchVersionsReduce ((pluginId, pluginData) # rest) acc =
     (case versions pluginData of
        [] \<Rightarrow> Inl TypeError
      | v # vs \<Rightarrow> searchVersionsReduce rest (objAssign acc pluginId (name v)))"

definition initialSearchVersions ::
  "(string \<times> docsData) list \<Rightarrow> error + (string \<times> string) list" where
  "initialSearchVersions allDocsData = searchVersionsReduce allDocsData []"

subsection \<open>The construction of a search request\<close>

text \<open>
  The helper of \<^verbatim>\<open>algoliasearch-helper\<close> is a collaborator outside this repository.
  The model records the calls the page makes on it, in order; a call of \<^verbatim>\<open>search\<close>
  is one search request.
\<close>

datatype helperCall =
  AddDisjunctiveFacetRefinement string string
| SetQuery string
| SetPage int
| Search

definition addDisjunctiveFacetRefinement ::
  "string \<Rightarrow> string \<Rightarrow> helperCall list \<Rightarrow> helperCall list" where
  "addDisjunctiveFacetRefinement facet v h = h @ [AddDisjunctiveFacetRefinement facet v]"

definition setQuery :: "string \<Rightarrow> helperCall list \<Rightarrow> helperCall list" where
  "setQuery q h = h @ [SetQuery q]"

definition setPage :: "int \<Rightarrow> helperCall list \<Rightarrow> helperCall list" where
  "setPage n h = h @ [SetPage n]"

definition search :: "helperCall list \<Rightarrow> helperCall list" where
  "search h = h @ [Search]"

text \<open>
  \<^verbatim>\<open>makeSearch\<close>. It reads \<^verbatim>\<open>currentLocale\<close>, \<^verbatim>\<open>searchVersions\<close> and \<^verbatim>\<open>searchQuery\<close>
  of the render it runs in, the first three arguments; \<open>pageArg\<close> is \<^term>\<open>None\<close>
  when the call passes no argument, and then the default \<^verbatim>\<open>page = 0\<close> applies.
\<close>

definition makeSearch ::
  "string \<Rightarrow> (string \<times> string) list \<Rightarrow> string \<Rightarrow> int option \<Rightarrow> helperCall list
     \<Rightarrow> helperCall list" where
  "makeSearch currentLocale searchVersions searchQuery pageArg h =
     (let page = (case pageArg of None \<Rightarrow> 0 | Some n \<Rightarrow> n);
          h1 = addDisjunctiveFacetRefinement ''docusaurus_tag'' ''default'' h;
          h2 = addDisjunctiveFacetRefinement ''language'' currentLocale h1;
          h3 = fold (\<lambda>(pluginId, searchVersion).
                       addDisjunctiveFacetRefinement ''docusaurus_tag''
                         (''docs-'' @ pluginId @ ''-'' @ searchVersion))
                 searchVersions h2
      in search (setPage page (setQuery searchQuery h3)))"

text \<open>
  The effect on \<^verbatim>\<open>searchResultState.lastPage\<close>: no request when \<^verbatim>\<open>lastPage\<close> is
  \<^verbatim>\<open>null\<close> or 0, otherwise \<^verbatim>\<open>makeSearch(lastPage)\<close>.
\<close>

definition paginationEffect ::
  "string \<Rightarrow> (string \<times> string) list \<Rightarrow> string \<Rightarrow> resultDispatcherState \<Rightarrow> helperCall list
     \<Rightarrow> helperCall list" where
  "paginationEffect currentLocale searchVersions searchQuery st h =
     (case lastPage st of
        None \<Rightarrow> h
      | Some lp \<Rightarrow> if lp = 0 then h
                   else makeSearch currentLocale searchVersions searchQuery (Some lp) h)"

text \<open>The calls of \<^verbatim>\<open>addDisjunctiveFacetRefinement\<close> in a record of calls.\<close>

fun refinements :: "helperCall list \<Rightarrow> (string \<times> string) list" where
  "refinements [] = []"
| "refinements (AddDisjunctiveFacetRefinement facet v # cs) = (facet, v) # refinements cs"
| "refinements (c # cs) = refinements cs"

subsection \<open>The delayed search\<close>

text \<open>
  The part of the page that the effect on \<^verbatim>\<open>searchQuery\<close> reads and writes. Time is
  in milliseconds. \<open>timers\<close> holds the time at which each pending \<^verbatim>\<open>setTimeout\<close>
  callback is due, in the order of the calls of \<^verbatim>\<open>setTimeout\<close>; the component never
  calls \<^verbatim>\<open>clearTimeout\<close>, so a timer leaves the list only by firing.
\<close>

record searchPage =
  searchQuery :: string
  currentLocale :: string
  searchVersions :: "(string \<times> string) list"
  searchResultState :: resultDispatcherState
  timers :: "nat list"
  helperCalls :: "helperCall list"

text \<open>
  The callback given to \<^verbatim>\<open>setTimeout\<close>. \<^verbatim>\<open>makeSearch\<close> is wrapped in \<^verbatim>\<open>useEvent\<close>, so
  the call runs the function of the latest render and reads the query of the page at
  the time the timer fires.
\<close>

definition timeoutCallback :: "searchPage \<Rightarrow> searchPage" where
  "timeoutCallback p =
     p\<lparr>helperCalls :=
         makeSearch (currentLocale p) (searchVersions p) (searchQuery p) None (helperCalls p)\<rparr>"

text \<open>
  The body of the effect with the dependencies
  \<^verbatim>\<open>[searchQuery, searchVersions, makeSearch]\<close>, run at the time \<open>now\<close>.
\<close>

definition queryEffect :: "nat \<Rightarrow> searchPage \<Rightarrow> searchPage" where
  "queryEffect now p =
     (let p1 = p\<lparr>searchResultState := reducer (searchQuery p) (searchResultState p) Reset\<rparr>
      in if searchQuery p \<noteq> [] then
           p1\<lparr>searchResultState := reducer (searchQuery p) (searchResultState p1) Loading,
              timers := timers p1 @ [now + 300]\<rparr>
         else p1)"

text \<open>The passing of time up to \<open>t\<close>: every pending timer due by then fires, in order.\<close>

definition advanceTo :: "nat \<Rightarrow> searchPage \<Rightarrow> searchPage" where
  "advanceTo t p =
     fold (\<lambda>due. timeoutCallback) (filter (\<lambda>due. due \<le> t) (timers p))
       (p\<lparr>timers := filter (\<lambda>due. t < due) (timers p)\<rparr>)"

text \<open>
  The user changes the query to \<open>q\<close> at the time \<open>t\<close> (\<^verbatim>\<open>setSearchQuery\<close> from the
  input's \<^verbatim>\<open>onChange\<close>): the page renders again with the new query and the effect
  runs, since its dependency \<^verbatim>\<open>searchQuery\<close> has changed. Setting the query it already
  has changes no dependency.
\<close>

definition setSearchQuery :: "nat \<Rightarrow> string \<Rightarrow> searchPage \<Rightarrow> searchPage" where
  "setSearchQuery t q p =
     (let p1 = advanceTo t p
      in if q = searchQuery p1 then p1 else queryEffect t (p1\<lparr>searchQuery := q\<rparr>))"

text \<open>The number of search requests in a record of calls, and the queries set.\<close>

definition searchCount :: "helperCall list \<Rightarrow> nat" where
  "searchCount h = length (filter (\<lambda>c. c = Search) h)"

fun queriesSet :: "helperCall list \<Rightarrow> string list" where
  "queriesSet [] = []"
| "queriesSet (SetQuery q # cs) = q # queriesSet cs"
| "queriesSet (c # cs) = queriesSet cs"

subsection \<open>Concrete inputs\<close>

definition exampleItem :: "string \<Rightarrow> resultItem" where
  "exampleItem t = \<lparr>title = t, url = ''/docs/'' @ t, summary = [], breadcrumbs = []\<rparr>"

definition exampleState :: "string \<Rightarrow> int \<Rightarrow> int \<Rightarrow> resultDispatcherState" where
  "exampleState q tp lp =
     \<lparr>items = [exampleItem ''a''], query = Some q, totalResults = Some 40,
      totalPages = Some tp, lastPage = Some lp, hasMore = Some (tp > lp + 1),
      loading = Some False\<rparr>"

definition idlePage :: searchPage where
  "idlePage =
     \<lparr>searchQuery = [], currentLocale = ''en'',
      searchVersions = [(''default'', ''current'')],
      searchResultState = initialSearchResultState, timers = [], helperCalls = []\<rparr>"

definition exampleDocs :: "(string \<times> docsData) list" where
  "exampleDocs =
     [(''default'', \<lparr>versions = [\<lparr>name = ''current'', label = ''Next''\<rparr>,
                                   \<lparr>name = ''1.0.0'', label = ''1.0.0''\<rparr>]\<rparr>),
      (''community'', \<lparr>versions = [\<lparr>name = ''current'', label = ''Current''\<rparr>]\<rparr>)]"

section \<open>Properties of the addition\<close>

lemma bitLength_le: "n < 2 ^ k \<Longrightarrow> bitLength n \<le> k"
proof (induction k arbitrary: n)
  case 0
  then show ?case by (simp add: bitLength.simps)
next
  case (Suc k)
  show ?case
  proof (cases "n = 0")
    case True
    then show ?thesis by (simp add: bitLength.simps)
  next
    case False
    from Suc.prems have "n div 2 < 2 ^ k" by simp
    then have "bitLength (n div 2) \<le> k" by (rule Suc.IH)
    with False show ?thesis by (subst bitLength.simps) simp
  qed
qed

lemma bitLength_eq: "2 ^ k \<le> n \<Longrightarrow> n < 2 ^ Suc k \<Longrightarrow> bitLength n = Suc k"
proof (induction k arbitrary: n)
  case 0
  then have "n = 1" by simp
  then show ?case by (simp add: bitLength.simps [of "Suc 0"] bitLength.simps [of 0])
next
  case (Suc k)
  from Suc.prems have "2 ^ k \<le> n div 2" and "n div 2 < 2 ^ Suc k" by simp_all
  then have "bitLength (n div 2) = Suc k" by (rule Suc.IH)
  moreover from Suc.prems have "n \<noteq> 0" by auto
  ultimately show ?case by (subst bitLength.simps) simp
qed

lemma bitLength_54:
  "9007199254740992 \<le> n \<Longrightarrow> n < 18014398509481984 \<Longrightarrow> bitLength n = 54"
  using bitLength_eq [of 53 n] by simp

lemma bitLength_lower: "0 < n \<Longrightarrow> 2 ^ (bitLength n - 1) \<le> n"
proof (induction n rule: bitLength.induct)
  case (1 n)
  show ?case
  proof (cases "n div 2 = 0")
    case True
    with "1.prems" show ?thesis by (simp add: bitLength.simps [of n] bitLength.simps [of 0])
  next
    case False
    with "1.prems" "1.IH" have ih: "2 ^ (bitLength (n div 2) - 1) \<le> n div 2" by simp
    from False have pos: "0 < bitLength (n div 2)" by (subst bitLength.simps) simp
    have "bitLength n = Suc (bitLength (n div 2))"
      using "1.prems" by (subst bitLength.simps) simp
    then have "(2::nat) ^ (bitLength n - 1) = 2 * 2 ^ (bitLength (n div 2) - 1)"
      using pos by (cases "bitLength (n div 2)") simp_all
    also have "\<dots> \<le> 2 * (n div 2)" using ih by simp
    also have "\<dots> \<le> n" by simp
    finally show ?thesis .
  qed
qed

text \<open>An integer below \<open>2\<^sup>5\<^sup>3\<close> in absolute value is a double.\<close>

lemma roundToDouble_exact: "\<bar>n\<bar> < 9007199254740992 \<Longrightarrow> roundToDouble n = n"
proof -
  assume a: "\<bar>n\<bar> < 9007199254740992"
  then have "nat \<bar>n\<bar> < 2 ^ 53" by simp
  then have "bitLength (nat \<bar>n\<bar>) \<le> 53" by (rule bitLength_le)
  then have e: "bitLength (nat \<bar>n\<bar>) - 53 = 0" by simp
  show ?thesis
    unfolding roundToDouble_def Let_def e
    by (simp add: sgn_if)
qed

lemma roundToDouble_pow53: "roundToDouble 9007199254740992 = 9007199254740992"
  unfolding roundToDouble_def Let_def by (simp add: bitLength_54)

lemma roundToDouble_neg_pow53: "roundToDouble (- 9007199254740992) = - 9007199254740992"
  unfolding roundToDouble_def Let_def by (simp add: bitLength_54)

lemma roundToDouble_safe: "\<bar>n\<bar> \<le> 9007199254740992 \<Longrightarrow> roundToDouble n = n"
proof -
  assume "\<bar>n\<bar> \<le> 9007199254740992"
  then consider "\<bar>n\<bar> < 9007199254740992" | "n = 9007199254740992" | "n = - 9007199254740992"
    by linarith
  then show ?thesis
    by cases (simp_all add: roundToDouble_exact roundToDouble_pow53 roundToDouble_neg_pow53)
qed

text \<open>The first two sums of an integer and 1 that are not exact.\<close>

lemma roundToDouble_tie_down: "roundToDouble 9007199254740993 = 9007199254740992"
  unfolding roundToDouble_def Let_def by (simp add: bitLength_54)

lemma roundToDouble_tie_up: "roundToDouble 9007199254740995 = 9007199254740996"
  unfolding roundToDouble_def Let_def by (simp add: bitLength_54)

text \<open>Rounding a positive integer gives a positive integer.\<close>

lemma roundToDouble_pos: "1 \<le> n \<Longrightarrow> 1 \<le> roundToDouble n"
proof -
  assume n: "1 \<le> n"
  define a where "a = nat \<bar>n\<bar>"
  define u :: nat where "u = 2 ^ (bitLength a - 53)"
  define q' where "q' = (if 2 * (a mod u) < u then a div u
                else if u < 2 * (a mod u) then a div u + 1
                else if even (a div u) then a div u else a div u + 1)"
  have rd: "roundToDouble n = sgn n * int (q' * u)"
    unfolding roundToDouble_def Let_def a_def u_def q'_def by (rule refl)
  from n have apos: "0 < a" by (simp add: a_def)
  have "u \<le> 2 ^ (bitLength a - 1)"
    unfolding u_def by (rule power_increasing) simp_all
  also have "\<dots> \<le> a" using apos by (rule bitLength_lower)
  finally have ule: "u \<le> a" .
  have upos: "0 < u" by (simp add: u_def)
  from ule upos have q: "1 \<le> a div u"
    by (simp add: div_greater_zero_iff Suc_le_eq)
  then have "1 \<le> q'" by (simp add: q'_def)
  with upos have "1 \<le> q' * u" by (simp add: Suc_le_eq)
  then have "1 \<le> int (q' * u)" by linarith
  moreover from n have "sgn n = 1" by simp
  ultimately show ?thesis by (simp only: rd mult_1)
qed

lemma jsAdd_safe: "\<bar>a + b\<bar> \<le> 9007199254740992 \<Longrightarrow> jsAdd a b = a + b"
  by (simp add: jsAdd_def roundToDouble_safe)

lemma jsAdd_0_1: "jsAdd 0 1 = 1"
  by (simp add: jsAdd_safe)

section \<open>Properties of the reducer\<close>

text \<open>
  Claim C1. An \<^verbatim>\<open>update\<close> whose payload query differs from the active search query is
  discarded: the reducer returns the previous state, whatever it is, with no field
  changed. A payload whose query is \<^verbatim>\<open>null\<close> differs from every active query.
\<close>

theorem update_stale_discarded:
  "query v \<noteq> Some sq \<Longrightarrow> reducer sq S (Update v) = S"
  by auto

theorem update_stale_discarded_witness:
  "query (exampleState ''old'' 3 0) \<noteq> Some ''new''
   \<and> reducer ''new'' (exampleState ''new'' 5 1) (Update (exampleState ''old'' 3 0))
       = exampleState ''new'' 5 1"
  using update_stale_discarded [of "exampleState ''old'' 3 0" "''new''" "exampleState ''new'' 5 1"]
  by (simp add: exampleState_def)

text \<open>
  Claim C2. An \<^verbatim>\<open>update\<close> whose payload query is the active query: when the payload's
  \<^verbatim>\<open>lastPage\<close> is 0 the new items are the payload's items, otherwise they are the
  previous items followed by the payload's items; every other field of the new state is
  the payload's.
\<close>

theorem update_current_items:
  "query v = Some sq \<Longrightarrow>
     items (reducer sq S (Update v))
       = (if lastPage v = Some 0 then items v else items S @ items v)
     \<and> query (reducer sq S (Update v)) = query v
     \<and> totalResults (reducer sq S (Update v)) = totalResults v
     \<and> totalPages (reducer sq S (Update v)) = totalPages v
     \<and> lastPage (reducer sq S (Update v)) = lastPage v
     \<and> hasMore (reducer sq S (Update v)) = hasMore v
     \<and> loading (reducer sq S (Update v)) = loading v"
  by simp

theorem update_current_items_witness:
  "query (exampleState ''q'' 3 1) = Some ''q''
   \<and> items (reducer ''q'' (exampleState ''q'' 3 0) (Update (exampleState ''q'' 3 1)))
       = [exampleItem ''a'', exampleItem ''a'']
   \<and> items (reducer ''q'' (exampleState ''q'' 3 1) (Update (exampleState ''q'' 3 0)))
       = [exampleItem ''a'']
   \<and> lastPage (reducer ''q'' (exampleState ''q'' 3 0) (Update (exampleState ''q'' 3 1)))
       = Some 1"
  using update_current_items [of "exampleState ''q'' 3 1" "''q''" "exampleState ''q'' 3 0"]
    update_current_items [of "exampleState ''q'' 3 0" "''q''" "exampleState ''q'' 3 1"]
  by (simp add: exampleState_def)

text \<open>
  Claim C3, as amended. On a state whose \<^verbatim>\<open>totalPages\<close> and \<^verbatim>\<open>lastPage\<close> are
  integers, \<^verbatim>\<open>lastPage\<close> a safe integer (at most \<open>2\<^sup>5\<^sup>3 - 1 = 9007199254740991\<close> in
  absolute value, \<^verbatim>\<open>Number.MAX_SAFE_INTEGER\<close>), \<^verbatim>\<open>advance\<close> computes
  \<^verbatim>\<open>hasMore = totalPages > lastPage + 1\<close>; when it is true the result is the state
  with \<^verbatim>\<open>lastPage\<close> incremented by one and \<^verbatim>\<open>hasMore = true\<close>, otherwise the state
  with \<^verbatim>\<open>lastPage\<close> unchanged and \<^verbatim>\<open>hasMore = false\<close>. With 3 pages, \<^verbatim>\<open>lastPage = 0\<close>
  gives \<^verbatim>\<open>lastPage = 1, hasMore = true\<close>, and \<^verbatim>\<open>lastPage = 2\<close> gives
  \<^verbatim>\<open>lastPage = 2, hasMore = false\<close>.
\<close>

theorem advance_integer_pages:
  "totalPages S = Some tp \<Longrightarrow> lastPage S = Some lp \<Longrightarrow> \<bar>lp\<bar> \<le> 9007199254740991 \<Longrightarrow>
     reducer sq S Advance
       = (if tp > lp + 1 then S\<lparr>lastPage := Some (lp + 1), hasMore := Some True\<rparr>
          else S\<lparr>lastPage := Some lp, hasMore := Some False\<rparr>)
     \<and> (tp = 3 \<and> lp = 0 \<longrightarrow>
          lastPage (reducer sq S Advance) = Some 1
          \<and> hasMore (reducer sq S Advance) = Some True)
     \<and> (tp = 3 \<and> lp = 2 \<longrightarrow>
          lastPage (reducer sq S Advance) = Some 2
          \<and> hasMore (reducer sq S Advance) = Some False)"
proof -
  assume tp: "totalPages S = Some tp" and lp: "lastPage S = Some lp"
    and safe: "\<bar>lp\<bar> \<le> 9007199254740991"
  from safe have add: "jsAdd lp 1 = lp + 1"
    by (intro jsAdd_safe) linarith
  from tp lp have main: "reducer sq S Advance
       = (if tp > lp + 1 then S\<lparr>lastPage := Some (lp + 1), hasMore := Some True\<rparr>
          else S\<lparr>lastPage := Some lp, hasMore := Some False\<rparr>)"
    by (simp add: toNumber_def add)
  show ?thesis
    unfolding main by simp
qed

theorem advance_integer_pages_witness:
  "totalPages (exampleState ''q'' 3 0) = Some 3 \<and> lastPage (exampleState ''q'' 3 0) = Some 0
   \<and> \<bar>0::int\<bar> \<le> 9007199254740991
   \<and> totalPages (exampleState ''q'' 3 2) = Some 3 \<and> lastPage (exampleState ''q'' 3 2) = Some 2
   \<and> \<bar>2::int\<bar> \<le> 9007199254740991
   \<and> reducer ''q'' (exampleState ''q'' 3 0) Advance = exampleState ''q'' 3 1
   \<and> reducer ''q'' (exampleState ''q'' 3 2) Advance = exampleState ''q'' 3 2"
proof -
  have t0: "totalPages (exampleState ''q'' 3 0) = Some 3"
    and l0: "lastPage (exampleState ''q'' 3 0) = Some 0"
    and t2: "totalPages (exampleState ''q'' 3 2) = Some 3"
    and l2: "lastPage (exampleState ''q'' 3 2) = Some 2"
    by (simp_all add: exampleState_def)
  have s0: "\<bar>0::int\<bar> \<le> 9007199254740991" and s2: "\<bar>2::int\<bar> \<le> 9007199254740991"
    by simp_all
  have r0: "reducer ''q'' (exampleState ''q'' 3 0) Advance = exampleState ''q'' 3 1"
    using conjunct1 [OF advance_integer_pages [OF t0 l0 s0, of "''q''"]]
    by (simp add: exampleState_def)
  have r2: "reducer ''q'' (exampleState ''q'' 3 2) Advance = exampleState ''q'' 3 2"
    using conjunct1 [OF advance_integer_pages [OF t2 l2 s2, of "''q''"]]
    by (simp add: exampleState_def)
  from t0 l0 s0 t2 l2 s2 r0 r2 show ?thesis by simp
qed

text \<open>
  Claim C3, as stated, fails on integers beyond the safe range, where the addition
  \<^verbatim>\<open>lastPage + 1\<close> of doubles rounds. With \<^verbatim>\<open>lastPage\<close> \<open>= 2\<^sup>5\<^sup>3\<close> and
  \<^verbatim>\<open>totalPages\<close> \<open>= 2\<^sup>5\<^sup>3 + 2\<close> the sum is \<open>2\<^sup>5\<^sup>3\<close> again: \<^verbatim>\<open>hasMore\<close> is true and
  \<^verbatim>\<open>lastPage\<close> is not incremented. With \<^verbatim>\<open>lastPage\<close> \<open>= 2\<^sup>5\<^sup>3 + 2\<close> and \<^verbatim>\<open>totalPages\<close>
  \<open>= 2\<^sup>5\<^sup>3 + 4\<close> the sum is \<open>2\<^sup>5\<^sup>3 + 4\<close>: \<^verbatim>\<open>hasMore\<close> is false although
  \<^verbatim>\<open>totalPages\<close> exceeds \<^verbatim>\<open>lastPage\<close> by two.
\<close>

theorem advance_integer_pages_counterexample:
  "totalPages (exampleState ''q'' 9007199254740994 9007199254740992) = Some 9007199254740994
   \<and> lastPage (exampleState ''q'' 9007199254740994 9007199254740992) = Some 9007199254740992
   \<and> (9007199254740994::int) > 9007199254740992 + 1
   \<and> hasMore (reducer ''q'' (exampleState ''q'' 9007199254740994 9007199254740992) Advance)
       = Some True
   \<and> lastPage (reducer ''q'' (exampleState ''q'' 9007199254740994 9007199254740992) Advance)
       \<noteq> Some (9007199254740992 + 1)
   \<and> totalPages (exampleState ''q'' 9007199254740996 9007199254740994) = Some 9007199254740996
   \<and> lastPage (exampleState ''q'' 9007199254740996 9007199254740994) = Some 9007199254740994
   \<and> (9007199254740996::int) > 9007199254740994 + 1
   \<and> hasMore (reducer ''q'' (exampleState ''q'' 9007199254740996 9007199254740994) Advance)
       \<noteq> Some True"
  by (simp add: exampleState_def toNumber_def jsAdd_def roundToDouble_tie_down
      roundToDouble_tie_up)

text \<open>
  Claim C6. \<^verbatim>\<open>reset\<close> returns the initial state, whose items are the empty list and
  whose other fields are all \<^verbatim>\<open>null\<close>, from every state.
\<close>

theorem reset_initial:
  "reducer sq S Reset = initialSearchResultState
   \<and> items initialSearchResultState = []
   \<and> query initialSearchResultState = None
   \<and> totalResults initialSearchResultState = None
   \<and> totalPages initialSearchResultState = None
   \<and> lastPage initialSearchResultState = None
   \<and> hasMore initialSearchResultState = None
   \<and> loading initialSearchResultState = None"
  by (simp add: initialSearchResultState_def)

text \<open>
  Claim C8. \<^verbatim>\<open>loading\<close> returns the state with \<^verbatim>\<open>loading = true\<close> and the six other
  fields unchanged.
\<close>

theorem loading_frame:
  "reducer sq S Loading = S\<lparr>loading := Some True\<rparr>
   \<and> loading (reducer sq S Loading) = Some True
   \<and> items (reducer sq S Loading) = items S
   \<and> query (reducer sq S Loading) = query S
   \<and> totalResults (reducer sq S Loading) = totalResults S
   \<and> totalPages (reducer sq S Loading) = totalPages S
   \<and> lastPage (reducer sq S Loading) = lastPage S
   \<and> hasMore (reducer sq S Loading) = hasMore S"
  by simp

text \<open>
  Claim C9, as amended. \<^verbatim>\<open>advance\<close> returns a state from every state, also when
  \<^verbatim>\<open>totalPages\<close> or \<^verbatim>\<open>lastPage\<close> is \<^verbatim>\<open>null\<close>: the reducer has no failing branch, and
  a \<^verbatim>\<open>null\<close> operand counts as 0 in \<^verbatim>\<open>totalPages > lastPage + 1\<close>. When
  \<^verbatim>\<open>totalPages\<close> is \<^verbatim>\<open>null\<close> and \<^verbatim>\<open>lastPage\<close> is \<^verbatim>\<open>null\<close> or not negative, as in the
  initial state, the result is the state with \<^verbatim>\<open>hasMore = false\<close> and \<^verbatim>\<open>lastPage\<close>
  unchanged. When only \<^verbatim>\<open>lastPage\<close> is \<^verbatim>\<open>null\<close> the comparison is
  \<^verbatim>\<open>totalPages > 1\<close>, and where it holds the result has \<^verbatim>\<open>hasMore = true\<close> and
  \<^verbatim>\<open>lastPage = 1\<close>.
\<close>

theorem advance_null_operands:
  "(totalPages S = None \<and> lastPage S = None \<longrightarrow>
      reducer sq S Advance = S\<lparr>hasMore := Some False\<rparr>)
   \<and> (totalPages S = None \<and> lastPage S = Some lp \<and> 0 \<le> lp \<longrightarrow>
      reducer sq S Advance = S\<lparr>hasMore := Some False\<rparr>)
   \<and> (totalPages S = Some tp \<and> lastPage S = None \<longrightarrow>
      reducer sq S Advance
        = (if tp > 1 then S\<lparr>lastPage := Some 1, hasMore := Some True\<rparr>
           else S\<lparr>hasMore := Some False\<rparr>))
   \<and> reducer sq initialSearchResultState Advance
        = initialSearchResultState\<lparr>hasMore := Some False\<rparr>"
proof -
  have both: "totalPages S = None \<and> lastPage S = None \<longrightarrow>
      reducer sq S Advance = S\<lparr>hasMore := Some False\<rparr>"
    by (simp add: toNumber_def jsAdd_0_1)
  have pos: "totalPages S = None \<and> lastPage S = Some lp \<and> 0 \<le> lp \<longrightarrow>
      reducer sq S Advance = S\<lparr>hasMore := Some False\<rparr>"
  proof (intro impI)
    assume h: "totalPages S = None \<and> lastPage S = Some lp \<and> 0 \<le> lp"
    then have "1 \<le> roundToDouble (lp + 1)" by (intro roundToDouble_pos) simp
    then have "\<not> 0 > jsAdd lp 1" by (simp add: jsAdd_def)
    with h show "reducer sq S Advance = S\<lparr>hasMore := Some False\<rparr>"
      by (simp add: toNumber_def)
  qed
  have last: "totalPages S = Some tp \<and> lastPage S = None \<longrightarrow>
      reducer sq S Advance
        = (if tp > 1 then S\<lparr>lastPage := Some 1, hasMore := Some True\<rparr>
           else S\<lparr>hasMore := Some False\<rparr>)"
    by (simp add: toNumber_def jsAdd_0_1)
  have init: "reducer sq initialSearchResultState Advance
        = initialSearchResultState\<lparr>hasMore := Some False\<rparr>"
    by (simp add: toNumber_def jsAdd_0_1 initialSearchResultState_def)
  from both pos last init show ?thesis by blast
qed

theorem advance_null_operands_witness:
  "totalPages initialSearchResultState = None \<and> lastPage initialSearchResultState = None
   \<and> hasMore (reducer ''q'' initialSearchResultState Advance) = Some False
   \<and> lastPage (reducer ''q'' initialSearchResultState Advance) = None
   \<and> totalPages (initialSearchResultState\<lparr>lastPage := Some 2\<rparr>) = None
   \<and> lastPage (initialSearchResultState\<lparr>lastPage := Some 2\<rparr>) = Some 2 \<and> (0::int) \<le> 2
   \<and> hasMore (reducer ''q'' (initialSearchResultState\<lparr>lastPage := Some 2\<rparr>) Advance) = Some False
   \<and> lastPage (reducer ''q'' (initialSearchResultState\<lparr>lastPage := Some 2\<rparr>) Advance) = Some 2
   \<and> totalPages (initialSearchResultState\<lparr>totalPages := Some 5\<rparr>) = Some 5
   \<and> lastPage (initialSearchResultState\<lparr>totalPages := Some 5\<rparr>) = None
   \<and> hasMore (reducer ''q'' (initialSearchResultState\<lparr>totalPages := Some 5\<rparr>) Advance) = Some True
   \<and> lastPage (reducer ''q'' (initialSearchResultState\<lparr>totalPages := Some 5\<rparr>) Advance) = Some 1"
  using advance_null_operands [where S = initialSearchResultState and sq = "''q''"]
    advance_null_operands [where S = "initialSearchResultState\<lparr>lastPage := Some 2\<rparr>"
      and sq = "''q''" and lp = 2]
    advance_null_operands [where S = "initialSearchResultState\<lparr>totalPages := Some 5\<rparr>"
      and sq = "''q''" and tp = 5]
  by (simp add: initialSearchResultState_def)

text \<open>
  Claim C9, as stated, fails on a state whose \<^verbatim>\<open>lastPage\<close> is \<^verbatim>\<open>null\<close> and whose
  \<^verbatim>\<open>totalPages\<close> is 5: the comparison \<^verbatim>\<open>5 > null + 1\<close> is true, so the result does
  not have \<^verbatim>\<open>hasMore = false\<close> with \<^verbatim>\<open>lastPage\<close> unchanged.
\<close>

theorem advance_null_counterexample:
  "lastPage (initialSearchResultState\<lparr>totalPages := Some 5\<rparr>) = None
   \<and> \<not> (hasMore (reducer ''q'' (initialSearchResultState\<lparr>totalPages := Some 5\<rparr>) Advance)
           = Some False
         \<and> lastPage (reducer ''q'' (initialSearchResultState\<lparr>totalPages := Some 5\<rparr>) Advance)
           = lastPage (initialSearchResultState\<lparr>totalPages := Some 5\<rparr>))"
  by (simp add: initialSearchResultState_def toNumber_def jsAdd_0_1)

section \<open>Properties of the result handler\<close>

text \<open>
  Claim C7. On a result whose query is the empty string or whose \<^verbatim>\<open>hits\<close> is not an
  array, the handler dispatches \<^verbatim>\<open>reset\<close> and nothing else, so no \<^verbatim>\<open>update\<close>; the
  state after the dispatch is the initial state.
\<close>

theorem result_empty_or_malformed_resets:
  "resultsQuery r = [] \<or> \<not> isArray (hits r) \<Longrightarrow>
     onResult toItem r = Inr [Reset]
     \<and> dispatchAll sq S [Reset] = initialSearchResultState"
  by (simp add: onResult_def dispatchAll_def)

theorem result_empty_or_malformed_resets_witness:
  "resultsQuery \<lparr>resultsQuery = [], hits = HitsArray [''a''], page = 0, nbHits = 1,
                 nbPages = 1\<rparr> = []
   \<and> onResult (\<lambda>u. Inr (exampleItem u))
        \<lparr>resultsQuery = [], hits = HitsArray [''a''], page = 0, nbHits = 1, nbPages = 1\<rparr>
       = Inr [Reset]
   \<and> \<not> isArray (hits \<lparr>resultsQuery = ''q'', hits = NotAnArray, page = 0, nbHits = 1,
                       nbPages = 1\<rparr>)
   \<and> onResult (\<lambda>u. Inr (exampleItem u))
        \<lparr>resultsQuery = ''q'', hits = NotAnArray, page = 0, nbHits = 1, nbPages = 1\<rparr>
       = Inr [Reset]
   \<and> dispatchAll ''q'' (exampleState ''q'' 3 1) [Reset] = initialSearchResultState"
proof -
  let ?r1 = "\<lparr>resultsQuery = [], hits = HitsArray [''a''], page = 0, nbHits = 1,
              nbPages = 1\<rparr> :: string searchResults"
  let ?r2 = "\<lparr>resultsQuery = ''q'', hits = NotAnArray, page = 0, nbHits = 1,
              nbPages = 1\<rparr> :: string searchResults"
  have h1: "resultsQuery ?r1 = [] \<or> \<not> isArray (hits ?r1)" by simp
  have h2: "resultsQuery ?r2 = [] \<or> \<not> isArray (hits ?r2)" by simp
  show ?thesis
    using result_empty_or_malformed_resets [OF h1, of "\<lambda>u. Inr (exampleItem u)" "''q''"
        "exampleState ''q'' 3 1"]
      result_empty_or_malformed_resets [OF h2, of "\<lambda>u. Inr (exampleItem u)" "''q''"
        "exampleState ''q'' 3 1"]
    by simp
qed

section \<open>Properties of the version selection\<close>

lemma objAssign_fresh: "k \<notin> fst ` set s \<Longrightarrow> objAssign s k v = s @ [(k, v)]"
  by (induction s) auto

lemma searchVersionsReduce_ok:
  "distinct (map fst docs) \<Longrightarrow> fst ` set docs \<inter> fst ` set acc = {} \<Longrightarrow>
   \<forall>(pluginId, pluginData) \<in> set docs. versions pluginData \<noteq> [] \<Longrightarrow>
   searchVersionsReduce docs acc
     = Inr (acc @ map (\<lambda>(pluginId, pluginData). (pluginId, name (hd (versions pluginData)))) docs)"
proof (induction docs arbitrary: acc)
  case Nil
  then show ?case by simp
next
  case (Cons e docs)
  obtain pluginId pluginData where e: "e = (pluginId, pluginData)" by (cases e)
  from Cons.prems e obtain v vs where v: "versions pluginData = v # vs"
    by (cases "versions pluginData") auto
  from Cons.prems e have fresh: "pluginId \<notin> fst ` set acc" by auto
  have "searchVersionsReduce docs (acc @ [(pluginId, name v)])
          = Inr ((acc @ [(pluginId, name v)])
                 @ map (\<lambda>(pluginId, pluginData). (pluginId, name (hd (versions pluginData))))
                     docs)"
    using Cons.prems e by (intro Cons.IH) auto
  then show ?case using e v fresh by (simp add: objAssign_fresh)
qed

lemma searchVersionsReduce_fails:
  "\<exists>(pluginId, pluginData) \<in> set docs. versions pluginData = [] \<Longrightarrow>
   searchVersionsReduce docs acc = Inl TypeError"
  by (induction docs acc rule: searchVersionsReduce.induct) (auto split: list.splits)

text \<open>
  Claim C10. The initial selection relies on every docs plugin instance having a version:
  when each \<^verbatim>\<open>versions\<close> list is non-empty (the plugin ids, being the keys of an
  object, are distinct) it maps each plugin id to the name of \<^verbatim>\<open>versions[0]\<close>, and when
  some plugin instance has an empty \<^verbatim>\<open>versions\<close> list the initialisation throws a
  TypeError and gives no selection.
\<close>

theorem initialSearchVersions_first_version:
  "(distinct (map fst allDocsData)
      \<and> (\<forall>(pluginId, pluginData) \<in> set allDocsData. versions pluginData \<noteq> []) \<longrightarrow>
      initialSearchVersions allDocsData
        = Inr (map (\<lambda>(pluginId, pluginData). (pluginId, name (hd (versions pluginData))))
                 allDocsData))
   \<and> ((\<exists>(pluginId, pluginData) \<in> set allDocsData. versions pluginData = []) \<longrightarrow>
        initialSearchVersions allDocsData = Inl TypeError)"
  using searchVersionsReduce_ok [of allDocsData "[]"]
    searchVersionsReduce_fails [of allDocsData "[]"]
  by (simp add: initialSearchVersions_def)

theorem initialSearchVersions_first_version_witness:
  "distinct (map fst exampleDocs)
   \<and> list_all (\<lambda>(pluginId, pluginData). versions pluginData \<noteq> []) exampleDocs
   \<and> initialSearchVersions exampleDocs
        = Inr [(''default'', ''current''), (''community'', ''current'')]
   \<and> list_ex (\<lambda>(pluginId, pluginData). versions pluginData = [])
         (exampleDocs @ [(''api'', \<lparr>versions = []\<rparr>)])
   \<and> initialSearchVersions (exampleDocs @ [(''api'', \<lparr>versions = []\<rparr>)]) = Inl TypeError"
proof -
  have d: "distinct (map fst exampleDocs)"
    by (simp add: exampleDocs_def)
  have a: "\<forall>(pluginId, pluginData) \<in> set exampleDocs. versions pluginData \<noteq> []"
    by (simp add: exampleDocs_def)
  have e: "\<exists>(pluginId, pluginData) \<in> set (exampleDocs @ [(''api'', \<lparr>versions = []\<rparr>)]).
             versions pluginData = []"
    by simp
  have ok: "initialSearchVersions exampleDocs
        = Inr [(''default'', ''current''), (''community'', ''current'')]"
    using initialSearchVersions_first_version [of exampleDocs] d a
    by (simp add: exampleDocs_def)
  have bad: "initialSearchVersions (exampleDocs @ [(''api'', \<lparr>versions = []\<rparr>)])
        = Inl TypeError"
    using initialSearchVersions_first_version
      [of "exampleDocs @ [(''api'', \<lparr>versions = []\<rparr>)]"] e
    by blast
  from d a e ok bad show ?thesis
    by (simp add: list_all_iff list_ex_iff)
qed

section \<open>Properties of the search request\<close>

lemma fold_add_refinements:
  "fold (\<lambda>(pluginId, searchVersion).
           addDisjunctiveFacetRefinement facet (f pluginId searchVersion)) vs h
     = h @ map (\<lambda>(pluginId, searchVersion).
                  AddDisjunctiveFacetRefinement facet (f pluginId searchVersion)) vs"
  by (induction vs arbitrary: h) (auto simp: addDisjunctiveFacetRefinement_def)

lemma makeSearch_calls:
  "makeSearch loc vs q pg h =
     h @ [AddDisjunctiveFacetRefinement ''docusaurus_tag'' ''default'',
          AddDisjunctiveFacetRefinement ''language'' loc]
       @ map (\<lambda>(pluginId, searchVersion).
                AddDisjunctiveFacetRefinement ''docusaurus_tag''
                  (''docs-'' @ pluginId @ ''-'' @ searchVersion)) vs
       @ [SetQuery q, SetPage (case pg of None \<Rightarrow> 0 | Some n \<Rightarrow> n), Search]"
  unfolding makeSearch_def Let_def
  by (simp add: fold_add_refinements addDisjunctiveFacetRefinement_def
      setQuery_def setPage_def search_def)

lemma makeSearch_append:
  "makeSearch loc vs q pg h = h @ makeSearch loc vs q pg []"
  by (simp add: makeSearch_calls)

lemma refinements_append: "refinements (xs @ ys) = refinements xs @ refinements ys"
  by (induction xs rule: refinements.induct) auto

lemma refinements_map_add:
  "refinements (map (\<lambda>(a, b). AddDisjunctiveFacetRefinement facet (f a b)) vs)
     = map (\<lambda>(a, b). (facet, f a b)) vs"
  by (induction vs) auto

lemma searchCount_Nil: "searchCount [] = 0"
  by (simp add: searchCount_def)

lemma searchCount_append: "searchCount (xs @ ys) = searchCount xs + searchCount ys"
  by (simp add: searchCount_def)

lemma searchCount_makeSearch: "searchCount (makeSearch loc vs q pg []) = 1"
  unfolding makeSearch_calls by (auto simp: searchCount_def filter_empty_conv)

lemma queriesSet_append: "queriesSet (xs @ ys) = queriesSet xs @ queriesSet ys"
  by (induction xs rule: queriesSet.induct) auto

lemma queriesSet_map_add:
  "queriesSet (map (\<lambda>(a, b). AddDisjunctiveFacetRefinement facet (f a b)) vs) = []"
  by (induction vs) auto

lemma queriesSet_makeSearch: "queriesSet (makeSearch loc vs q pg []) = [q]"
  unfolding makeSearch_calls by (simp add: queriesSet_append queriesSet_map_add)

text \<open>
  Claim C5. One run of \<^verbatim>\<open>makeSearch\<close> adds to the calls already made on the helper:
  the refinement of \<^verbatim>\<open>docusaurus_tag\<close> by \<^verbatim>\<open>default\<close>, the refinement of \<^verbatim>\<open>language\<close>
  by the active locale, one refinement of \<^verbatim>\<open>docusaurus_tag\<close> for each entry of
  \<^verbatim>\<open>searchVersions\<close> (the tag \<^verbatim>\<open>docs-\<close>, the plugin id, \<^verbatim>\<open>-\<close>, the selected version),
  then the query, the page and one \<^verbatim>\<open>search\<close>. So a request has two refinements and
  one more for each collection of the version selection. The page is 0 for the delayed
  search, which passes no argument, and \<^verbatim>\<open>lastPage\<close> for the pagination effect, which
  makes a request only when \<^verbatim>\<open>lastPage\<close> is neither \<^verbatim>\<open>null\<close> nor 0.
\<close>

theorem makeSearch_request:
  "makeSearch loc vs q pageArg h =
     h @ [AddDisjunctiveFacetRefinement ''docusaurus_tag'' ''default'',
          AddDisjunctiveFacetRefinement ''language'' loc]
       @ map (\<lambda>(pluginId, searchVersion).
                AddDisjunctiveFacetRefinement ''docusaurus_tag''
                  (''docs-'' @ pluginId @ ''-'' @ searchVersion)) vs
       @ [SetQuery q, SetPage (case pageArg of None \<Rightarrow> 0 | Some n \<Rightarrow> n), Search]
   \<and> refinements (makeSearch loc vs q pageArg [])
       = [(''docusaurus_tag'', ''default''), (''language'', loc)]
         @ map (\<lambda>(pluginId, searchVersion).
                  (''docusaurus_tag'', ''docs-'' @ pluginId @ ''-'' @ searchVersion)) vs
   \<and> length (refinements (makeSearch loc vs q pageArg [])) = 2 + length vs
   \<and> searchCount (makeSearch loc vs q pageArg []) = 1
   \<and> helperCalls (timeoutCallback p)
       = makeSearch (currentLocale p) (searchVersions p) (searchQuery p) (Some 0) (helperCalls p)
   \<and> (lastPage st = Some lp \<and> lp \<noteq> 0 \<longrightarrow>
        paginationEffect loc vs q st h = makeSearch loc vs q (Some lp) h)
   \<and> (lastPage st = None \<or> lastPage st = Some 0 \<longrightarrow> paginationEffect loc vs q st h = h)"
proof -
  let ?tags = "map (\<lambda>(pluginId, searchVersion).
                AddDisjunctiveFacetRefinement ''docusaurus_tag''
                  (''docs-'' @ pluginId @ ''-'' @ searchVersion)) vs"
  have calls: "\<And>pg h. makeSearch loc vs q pg h =
     h @ [AddDisjunctiveFacetRefinement ''docusaurus_tag'' ''default'',
          AddDisjunctiveFacetRefinement ''language'' loc]
       @ ?tags @ [SetQuery q, SetPage (case pg of None \<Rightarrow> 0 | Some n \<Rightarrow> n), Search]"
    by (rule makeSearch_calls)
  have refs: "refinements (makeSearch loc vs q pageArg [])
       = [(''docusaurus_tag'', ''default''), (''language'', loc)]
         @ map (\<lambda>(pluginId, searchVersion).
                  (''docusaurus_tag'', ''docs-'' @ pluginId @ ''-'' @ searchVersion)) vs"
    unfolding calls by (simp add: refinements_append refinements_map_add)
  have len: "length (refinements (makeSearch loc vs q pageArg [])) = 2 + length vs"
    unfolding refs by simp
  have cnt: "searchCount (makeSearch loc vs q pageArg []) = 1"
    by (rule searchCount_makeSearch)
  have cb: "helperCalls (timeoutCallback p)
       = makeSearch (currentLocale p) (searchVersions p) (searchQuery p) (Some 0) (helperCalls p)"
    by (simp add: timeoutCallback_def makeSearch_def)
  have pag1: "lastPage st = Some lp \<and> lp \<noteq> 0 \<longrightarrow>
        paginationEffect loc vs q st h = makeSearch loc vs q (Some lp) h"
    by (simp add: paginationEffect_def)
  have pag2: "lastPage st = None \<or> lastPage st = Some 0 \<longrightarrow> paginationEffect loc vs q st h = h"
    by (auto simp: paginationEffect_def)
  from calls refs len cnt cb pag1 pag2 show ?thesis by blast
qed

theorem makeSearch_request_witness:
  "lastPage (exampleState ''install'' 3 1) = Some 1 \<and> (1::int) \<noteq> 0
   \<and> paginationEffect ''en'' [(''default'', ''current''), (''community'', ''1.0.0'')]
        ''install'' (exampleState ''install'' 3 1) []
       = [AddDisjunctiveFacetRefinement ''docusaurus_tag'' ''default'',
          AddDisjunctiveFacetRefinement ''language'' ''en'',
          AddDisjunctiveFacetRefinement ''docusaurus_tag'' ''docs-default-current'',
          AddDisjunctiveFacetRefinement ''docusaurus_tag'' ''docs-community-1.0.0'',
          SetQuery ''install'', SetPage 1, Search]
   \<and> lastPage initialSearchResultState = None
   \<and> paginationEffect ''en'' [(''default'', ''current''), (''community'', ''1.0.0'')]
        ''install'' initialSearchResultState [] = []
   \<and> makeSearch ''en'' [(''default'', ''current''), (''community'', ''1.0.0'')]
        ''install'' None []
       = [AddDisjunctiveFacetRefinement ''docusaurus_tag'' ''default'',
          AddDisjunctiveFacetRefinement ''language'' ''en'',
          AddDisjunctiveFacetRefinement ''docusaurus_tag'' ''docs-default-current'',
          AddDisjunctiveFacetRefinement ''docusaurus_tag'' ''docs-community-1.0.0'',
          SetQuery ''install'', SetPage 0, Search]"
  using makeSearch_request [where loc = "''en''"
      and vs = "[(''default'', ''current''), (''community'', ''1.0.0'')]"
      and q = "''install''" and pageArg = None and h = "[]"
      and st = "exampleState ''install'' 3 1" and lp = 1]
    makeSearch_request [where loc = "''en''"
      and vs = "[(''default'', ''current''), (''community'', ''1.0.0'')]"
      and q = "''install''" and pageArg = "Some 1" and h = "[]"
      and st = initialSearchResultState]
  by (simp add: exampleState_def initialSearchResultState_def)

section \<open>Properties of the delayed search\<close>

text \<open>
  Claim C4, as amended. The page has no pending timer; the query changes to \<open>q1\<close> at
  the time \<open>t1\<close> and to \<open>q2\<close> at \<open>t2\<close>, less than 300 ms later; nothing else happens
  until every timer has fired. Each change to a non-empty query has scheduled its own
  request and none is cancelled: the number of search requests made is the number of
  non-empty values among \<open>q1\<close> and \<open>q2\<close>, two when both are non-empty, and every one of
  them carries the final query \<open>q2\<close>.
\<close>

theorem delayed_search_requests:
  assumes "timers p = []" and "q1 \<noteq> searchQuery p" and "q2 \<noteq> q1"
    and "t1 \<le> t2" and "t2 < t1 + 300" and "t2 + 300 \<le> T"
  shows "helperCalls (advanceTo T (setSearchQuery t2 q2 (setSearchQuery t1 q1 p)))
           = helperCalls p
             @ concat (replicate (length (filter (\<lambda>q. q \<noteq> []) [q1, q2]))
                         (makeSearch (currentLocale p) (searchVersions p) q2 None []))
         \<and> searchCount (helperCalls (advanceTo T (setSearchQuery t2 q2 (setSearchQuery t1 q1 p))))
           = searchCount (helperCalls p) + length (filter (\<lambda>q. q \<noteq> []) [q1, q2])
         \<and> queriesSet (helperCalls (advanceTo T (setSearchQuery t2 q2 (setSearchQuery t1 q1 p))))
           = queriesSet (helperCalls p)
             @ replicate (length (filter (\<lambda>q. q \<noteq> []) [q1, q2])) q2
         \<and> timers (advanceTo T (setSearchQuery t2 q2 (setSearchQuery t1 q1 p))) = []"
proof -
  let ?m = "makeSearch (currentLocale p) (searchVersions p) q2 None []"
  let ?final = "advanceTo T (setSearchQuery t2 q2 (setSearchQuery t1 q1 p))"
  have calls: "helperCalls ?final
           = helperCalls p @ concat (replicate (length (filter (\<lambda>q. q \<noteq> []) [q1, q2])) ?m)"
    using assms
    by (cases "q1 = []"; cases "q2 = []")
       (simp_all add: setSearchQuery_def advanceTo_def queryEffect_def timeoutCallback_def
          Let_def makeSearch_append [of _ _ _ _ "helperCalls p"]
          makeSearch_append [of _ _ _ _ "helperCalls p @ ?m"])
  have tm: "timers ?final = []"
    using assms
    by (cases "q1 = []"; cases "q2 = []")
       (simp_all add: setSearchQuery_def advanceTo_def queryEffect_def timeoutCallback_def Let_def)
  have cnt: "searchCount (helperCalls ?final)
           = searchCount (helperCalls p) + length (filter (\<lambda>q. q \<noteq> []) [q1, q2])"
    unfolding calls
    by (simp add: searchCount_append searchCount_makeSearch searchCount_Nil)
  have qs: "queriesSet (helperCalls ?final)
           = queriesSet (helperCalls p)
             @ replicate (length (filter (\<lambda>q. q \<noteq> []) [q1, q2])) q2"
    unfolding calls
    by (simp add: queriesSet_append queriesSet_makeSearch)
  from calls cnt qs tm show ?thesis by blast
qed

theorem delayed_search_requests_witness:
  "timers idlePage = [] \<and> ''in'' \<noteq> searchQuery idlePage \<and> ''install'' \<noteq> ''in''
   \<and> (10::nat) \<le> 250 \<and> (250::nat) < 10 + 300 \<and> (250::nat) + 300 \<le> 600
   \<and> searchCount (helperCalls
        (advanceTo 600 (setSearchQuery 250 ''install'' (setSearchQuery 10 ''in'' idlePage)))) = 2
   \<and> queriesSet (helperCalls
        (advanceTo 600 (setSearchQuery 250 ''install'' (setSearchQuery 10 ''in'' idlePage))))
       = [''install'', ''install'']"
proof -
  have h1: "timers idlePage = []" by (simp add: idlePage_def)
  have h2: "''in'' \<noteq> searchQuery idlePage" by (simp add: idlePage_def)
  have h3: "''install'' \<noteq> ''in''" by simp
  have h4: "(10::nat) \<le> 250" by simp
  have h5: "(250::nat) < 10 + 300" by simp
  have h6: "(250::nat) + 300 \<le> 600" by simp
  have calls0: "helperCalls idlePage = []" by (simp add: idlePage_def)
  note r = delayed_search_requests [OF h1 h2 h3 h4 h5 h6]
  have cnt: "searchCount (helperCalls
        (advanceTo 600 (setSearchQuery 250 ''install'' (setSearchQuery 10 ''in'' idlePage)))) = 2"
    using conjunct1 [OF conjunct2 [OF r]] by (simp add: calls0 searchCount_Nil)
  have qs: "queriesSet (helperCalls
        (advanceTo 600 (setSearchQuery 250 ''install'' (setSearchQuery 10 ''in'' idlePage))))
       = [''install'', ''install'']"
    using conjunct1 [OF conjunct2 [OF conjunct2 [OF r]]] by (simp add: calls0)
  from h1 h2 cnt qs show ?thesis by simp
qed

text \<open>
  Claim C4, as stated, fails: from the idle page the query changes to \<^verbatim>\<open>a\<close> at time 0
  and to \<^verbatim>\<open>ab\<close> at time 100; both timers fire, at 300 and at 400, and the number of
  search requests is not one.
\<close>

theorem debounce_counterexample:
  "searchCount (helperCalls
      (advanceTo 400 (setSearchQuery 100 ''ab'' (setSearchQuery 0 ''a'' idlePage)))) \<noteq> 1"
  by (simp add: idlePage_def setSearchQuery_def advanceTo_def queryEffect_def
      timeoutCallback_def makeSearch_def addDisjunctiveFacetRefinement_def setQuery_def
      setPage_def search_def searchCount_def Let_def)

end
